theory Spec2Isabelle
  imports Complex_Main "HOL-Library.Sublist"
begin

section \<open>Python strings\<close>

text \<open>
  Both modules are Python 2: a \<^verbatim>\<open>str\<close> is a byte string, modelled as \<^typ>\<open>string\<close>.
  \<^verbatim>\<open>s.replace(old, new)\<close> scans \<^verbatim>\<open>s\<close> from the left, replaces each occurrence of
  \<^verbatim>\<open>old\<close> it meets and continues behind the occurrence, so that the text it has just
  written is not looked at again during the same call. With an empty \<^verbatim>\<open>old\<close> it puts
  \<^verbatim>\<open>new\<close> in front of every character and at the end.
\<close>

fun replace_scan :: "string \<Rightarrow> string \<Rightarrow> string \<Rightarrow> string" where
  "replace_scan old new [] = []"
| "replace_scan old new (c # cs) =
     (if prefix old (c # cs) then new @ replace_scan old new (drop (length old - 1) cs)
      else c # replace_scan old new cs)"

definition py_replace :: "string \<Rightarrow> string \<Rightarrow> string \<Rightarrow> string" where
  "py_replace s old new =
     (if old = [] then new @ concat (map (\<lambda>c. c # new) s) else replace_scan old new s)"

text \<open>
  \<^verbatim>\<open>s.split(sep)\<close> with a one-character separator: one piece more than there are
  separators, and so never an empty list.
\<close>

fun split_on :: "char \<Rightarrow> string \<Rightarrow> string list" where
  "split_on sep [] = [[]]"
| "split_on sep (c # cs) =
     (if c = sep then [] # split_on sep cs
      else (case split_on sep cs of
              [] \<Rightarrow> [[c]]
            | w # ws \<Rightarrow> (c # w) # ws))"

section \<open>csv\_avg\_emissivity\_to\_dictionary.py\<close>

subsection \<open>replace\_dot\_comma\_space\<close>

text \<open>
  \<^verbatim>\<open>replacements = ('.', ''), (', ', '_'), (',', '_'), (' ', '_'), ('(', ''), (')', ''), ('/', '_')\<close>
  \<^verbatim>\<open>return reduce(lambda alpha, omega: alpha.replace(*omega), replacements, string)\<close>
\<close>

definition replacements :: "(string \<times> string) list" where
  "replacements =
     [(''.'', ''''), ('', '', ''_''), ('','', ''_''), ('' '', ''_''),
      (''('', ''''), ('')'', ''''), (''/'', ''_'')]"

definition replace_dot_comma_space :: "string \<Rightarrow> string" where
  "replace_dot_comma_space string =
     foldl (\<lambda>alpha omega. py_replace alpha (fst omega) (snd omega)) string replacements"

text \<open>
  What the seven replacements amount to, as one pass over a key that has no periods
  left: a comma becomes an underscore and takes a space that follows it along, a
  space or a slash becomes an underscore, a parenthesis disappears, and every other
  character stays.
\<close>

definition skip_space :: "string \<Rightarrow> string" where
  "skip_space cs = (case cs of [] \<Rightarrow> [] | d # ds \<Rightarrow> if d = CHR '' '' then ds else cs)"

function canonical :: "string \<Rightarrow> string" where
  "canonical [] = []"
| "canonical (c # cs) =
     (if c = CHR '','' then CHR ''_'' # canonical (skip_space cs)
      else if c = CHR '' '' \<or> c = CHR ''/'' then CHR ''_'' # canonical cs
      else if c = CHR ''('' \<or> c = CHR '')'' then canonical cs
      else c # canonical cs)"
  by pat_completeness auto
termination
  by (relation "measure length") (auto simp: skip_space_def split: list.splits)

text \<open>The last five replacements, each of one character, taken together.\<close>

definition later_steps :: "string \<Rightarrow> string" where
  "later_steps u =
     map (\<lambda>c. if c = CHR ''/'' then CHR ''_'' else c)
       (filter (\<lambda>c. c \<noteq> CHR '')'')
         (filter (\<lambda>c. c \<noteq> CHR ''('')
           (map (\<lambda>c. if c = CHR '' '' then CHR ''_'' else c)
             (map (\<lambda>c. if c = CHR '','' then CHR ''_'' else c) u))))"

subsection \<open>Python values\<close>

text \<open>
  The values the two modules handle: strings, integers, the booleans and \<^verbatim>\<open>None\<close>.
  \<^verbatim>\<open>str(x)\<close> renders them as text.
\<close>

datatype pyval = PyStr string | PyInt int | PyBool bool | PyNone

definition digit_char :: "nat \<Rightarrow> char" where
  "digit_char d = ''0123456789'' ! (d mod 10)"

function str_nat :: "nat \<Rightarrow> string" where
  "str_nat n = (if n < 10 then [digit_char n] else str_nat (n div 10) @ [digit_char (n mod 10)])"
  by pat_completeness auto
termination
  by (relation "measure (\<lambda>n. n)") auto

declare str_nat.simps [simp del]

fun py_str :: "pyval \<Rightarrow> string" where
  "py_str (PyStr s) = s"
| "py_str (PyInt i) = (if i < 0 then CHR ''-'' # str_nat (nat (- i)) else str_nat (nat i))"
| "py_str (PyBool b) = (if b then ''True'' else ''False'')"
| "py_str PyNone = ''None''"

text \<open>
  The exceptions that can leave the modelled functions. An \<^verbatim>\<open>IndexError\<close> carries
  the name of the sequence that was indexed and the index that was out of range (what
  the traceback shows); the other errors carry the offending name or key.
\<close>

datatype error =
    IndexError string nat
  | ValueError string
  | SyntaxError string
  | KeyError string

subsection \<open>float and complex of a string\<close>

text \<open>
  \<^verbatim>\<open>float(s)\<close> and \<^verbatim>\<open>complex(s)\<close> are builtins of the interpreter. For a
  \<^verbatim>\<open>str\<close> argument each either returns a number or raises \<^verbatim>\<open>ValueError\<close>;
  \<^verbatim>\<open>is_number\<close> uses nothing but which of the two happens. The recognisers below
  follow CPython 2.7: the longest numeric prefix (an optional sign, then
  \<^verbatim>\<open>inf\<close>, \<^verbatim>\<open>infinity\<close> or \<^verbatim>\<open>nan\<close> in any case, or decimal digits with an
  optional point and an optional exponent), white space allowed around the number, and
  for \<^verbatim>\<open>complex\<close> an optional imaginary part ending in \<^verbatim>\<open>j\<close> and optional
  parentheses.
\<close>

definition isspace :: "char \<Rightarrow> bool" where
  "isspace c = (c \<in> set [CHR '' '', CHR 0x09, CHR 0x0A, CHR 0x0B, CHR 0x0C, CHR 0x0D])"

definition isdigit :: "char \<Rightarrow> bool" where
  "isdigit c = (c \<in> set ''0123456789'')"

definition isupper :: "char \<Rightarrow> bool" where
  "isupper c = (c \<in> set ''ABCDEFGHIJKLMNOPQRSTUVWXYZ'')"

definition islower :: "char \<Rightarrow> bool" where
  "islower c = (c \<in> set ''abcdefghijklmnopqrstuvwxyz'')"

definition tolower :: "char \<Rightarrow> char" where
  "tolower c = (if isupper c then char_of (of_char c + (32::nat)) else c)"

fun ci_prefix :: "string \<Rightarrow> string \<Rightarrow> bool" where
  "ci_prefix [] s = True"
| "ci_prefix (p # ps) [] = False"
| "ci_prefix (p # ps) (c # cs) = (tolower c = p \<and> ci_prefix ps cs)"

definition skip_sign :: "string \<Rightarrow> string" where
  "skip_sign s =
     (case s of
        [] \<Rightarrow> []
      | c # cs \<Rightarrow> if c = CHR ''+'' \<or> c = CHR ''-'' then cs else s)"

definition parse_inf_or_nan :: "string \<Rightarrow> string option" where
  "parse_inf_or_nan s =
     (let t = skip_sign s in
      if ci_prefix ''inf'' t then
        (let u = drop 3 t in Some (if ci_prefix ''inity'' u then drop 5 u else u))
      else if ci_prefix ''nan'' t then Some (drop 3 t)
      else None)"

definition skip_exponent :: "string \<Rightarrow> string" where
  "skip_exponent r =
     (case r of
        [] \<Rightarrow> []
      | c # cs \<Rightarrow>
          if c = CHR ''e'' \<or> c = CHR ''E'' then
            (let u = skip_sign cs in
             if takeWhile isdigit u = [] then r else dropWhile isdigit u)
          else r)"

definition dg_strtod :: "string \<Rightarrow> string option" where
  "dg_strtod s =
     (let t = skip_sign s;
          d1 = takeWhile isdigit t;
          r1 = dropWhile isdigit t;
          frac = (case r1 of
                    [] \<Rightarrow> ([], r1)
                  | c # cs \<Rightarrow>
                      if c = CHR ''.'' then (takeWhile isdigit cs, dropWhile isdigit cs)
                      else ([], r1))
      in if d1 = [] \<and> fst frac = [] then None else Some (skip_exponent (snd frac)))"

text \<open>The text left behind the longest numeric prefix; \<open>None\<close> when there is no such prefix.\<close>

definition strtod :: "string \<Rightarrow> string option" where
  "strtod s = (case parse_inf_or_nan s of Some r \<Rightarrow> Some r | None \<Rightarrow> dg_strtod s)"

definition float_parses :: "string \<Rightarrow> bool" where
  "float_parses s =
     (case strtod (dropWhile isspace s) of
        None \<Rightarrow> False
      | Some r \<Rightarrow> dropWhile isspace r = [])"

definition expect_j :: "string \<Rightarrow> string option" where
  "expect_j s =
     (case s of
        [] \<Rightarrow> None
      | c # cs \<Rightarrow> if c = CHR ''j'' \<or> c = CHR ''J'' then Some cs else None)"

definition complex_body :: "string \<Rightarrow> string option" where
  "complex_body s =
     (case strtod s of
        None \<Rightarrow> expect_j (skip_sign s)
      | Some r \<Rightarrow>
          (case r of
             [] \<Rightarrow> Some []
           | c # cs \<Rightarrow>
               if c = CHR ''+'' \<or> c = CHR ''-'' then
                 expect_j (case strtod r of Some e \<Rightarrow> e | None \<Rightarrow> cs)
               else if c = CHR ''j'' \<or> c = CHR ''J'' then Some cs
               else Some r))"

definition complex_parses :: "string \<Rightarrow> bool" where
  "complex_parses s =
     (let s1 = dropWhile isspace s;
          got_bracket = (case s1 of [] \<Rightarrow> False | c # cs \<Rightarrow> c = CHR ''('');
          s2 = (if got_bracket then dropWhile isspace (tl s1) else s1)
      in case complex_body s2 of
           None \<Rightarrow> False
         | Some r \<Rightarrow>
             (let r1 = dropWhile isspace r in
              if got_bracket then
                (case r1 of
                   [] \<Rightarrow> False
                 | c # cs \<Rightarrow> c = CHR '')'' \<and> dropWhile isspace cs = [])
              else r1 = []))"

subsection \<open>is\_number\<close>

text \<open>
  \<^verbatim>\<open>
  def is_number(value):
      try:
          float(value)  # for int, long and float
      except ValueError:
          try:
              complex(value)  # for complex
          except ValueError:
              return False
      return value
  \<close>
  The model takes a \<^verbatim>\<open>str\<close> argument, which is what every call in
  \<^verbatim>\<open>csv_to_dictionary\<close> passes (an element of \<^verbatim>\<open>row.split('|')\<close>). The result of
  the conversion is thrown away: the function returns its argument, or \<^verbatim>\<open>False\<close>.
\<close>

definition is_number :: "string \<Rightarrow> pyval" where
  "is_number value =
     (if float_parses value then PyStr value
      else if complex_parses value then PyStr value
      else PyBool False)"

subsection \<open>collections.namedtuple\<close>

text \<open>
  \<^verbatim>\<open>collections.namedtuple(typename, field_names)\<close> of the Python 2.7 library, called
  with a list of strings. It checks the type name and then each field name: only
  alphanumeric characters and underscores, not a keyword, not starting with a digit
  (the test \<^verbatim>\<open>name[0].isdigit()\<close> indexes an empty name out of range); then no field
  name may start with an underscore or occur twice. The class is built by executing
  generated source text, which the compiler refuses when a name is \<^verbatim>\<open>None\<close> or
  the type name is \<^verbatim>\<open>__debug__\<close> (a field name cannot be, for its underscore).
  The class remembers its name and its field names.
\<close>

definition isalnum :: "char \<Rightarrow> bool" where
  "isalnum c = (isdigit c \<or> isupper c \<or> islower c)"

definition kwlist :: "string list" where
  "kwlist =
     [''and'', ''as'', ''assert'', ''break'', ''class'', ''continue'', ''def'', ''del'',
      ''elif'', ''else'', ''except'', ''exec'', ''finally'', ''for'', ''from'', ''global'',
      ''if'', ''import'', ''in'', ''is'', ''lambda'', ''not'', ''or'', ''pass'', ''print'',
      ''raise'', ''return'', ''try'', ''while'', ''with'', ''yield'']"

definition check_name :: "string \<Rightarrow> error option" where
  "check_name name =
     (if \<not> list_all (\<lambda>c. isalnum c \<or> c = CHR ''_'') name then Some (ValueError name)
      else if name \<in> set kwlist then Some (ValueError name)
      else if name = [] then Some (IndexError ''name'' 0)
      else if isdigit (hd name) then Some (ValueError name)
      else None)"

fun check_names :: "string list \<Rightarrow> error option" where
  "check_names [] = None"
| "check_names (name # names) =
     (case check_name name of Some e \<Rightarrow> Some e | None \<Rightarrow> check_names names)"

fun check_seen :: "string list \<Rightarrow> string list \<Rightarrow> error option" where
  "check_seen seen [] = None"
| "check_seen seen (name # names) =
     (if prefix ''_'' name then Some (ValueError name)
      else if name \<in> set seen then Some (ValueError name)
      else check_seen (name # seen) names)"

record cwv_class =
  typename :: string
  fields_of :: "string list"
  subrange :: pyval
  b0 :: pyval
  b1 :: pyval
  b2 :: pyval
  b3 :: pyval
  b4 :: pyval
  b5 :: pyval
  b6 :: pyval
  b7 :: pyval
  rmse :: pyval

definition namedtuple :: "string \<Rightarrow> string list \<Rightarrow> error option" where
  "namedtuple tname field_names =
     (case check_names (tname # field_names) of
        Some e \<Rightarrow> Some e
      | None \<Rightarrow>
          (case check_seen [] field_names of
             Some e \<Rightarrow> Some e
           | None \<Rightarrow>
               if ''None'' \<in> set (tname # field_names) then Some (SyntaxError ''None'')
               else if tname = ''__debug__'' then Some (SyntaxError ''__debug__'')
               else None))"

subsection \<open>csv\_to\_dictionary\<close>

text \<open>
  \<^verbatim>\<open>
  def transform_cwv(row):
      elements = row.split('|')  # split row in elements
      key = replace_dot_comma_space(elements[0])  # key: 1st column, replace
      cwv = collections.namedtuple(key,
                                   [replace_dot_comma_space(fields[0]),
                                    ...
                                    replace_dot_comma_space(fields[9])])  # named tuples
      cwv.subrange = is_number(elements[0])
      cwv.b0 = is_number(elements[1])
      ...
      cwv.rmse = is_number(elements[9])
      dictionary[key] = dictionary.get(key, cwv)  # feed dictionary

  #map(transform, rows)
  map(transform_cwv, rows)
  return dictionary
  \<close>
  The three-column function \<^verbatim>\<open>transform\<close> is defined beside it, but its call is
  commented out: \<^verbatim>\<open>csv_to_dictionary\<close> runs \<^verbatim>\<open>transform_cwv\<close> on every row.

  The dictionary maps a key to the class made for the first row that had this key. The
  ten assignments \<^verbatim>\<open>cwv.subrange = ...\<close> to \<^verbatim>\<open>cwv.rmse = ...\<close> set attributes of
  that class, whatever its field names are.

  \<^verbatim>\<open>transform_cwv(row)\<close> evaluates, in this order: \<^verbatim>\<open>row.split('|')\<close>; the key from
  \<^verbatim>\<open>elements[0]\<close> (a split has at least one piece); \<^verbatim>\<open>fields[0]\<close> to
  \<^verbatim>\<open>fields[9]\<close>, of which the first one out of range is \<^verbatim>\<open>fields[len(fields)]\<close>;
  the call of \<^verbatim>\<open>namedtuple\<close>; \<^verbatim>\<open>elements[0]\<close> to \<^verbatim>\<open>elements[9]\<close>, each handed to
  \<^verbatim>\<open>is_number\<close>, of which the first one out of range is
  \<^verbatim>\<open>elements[len(elements)]\<close>; and last
  \<^verbatim>\<open>dictionary[key] = dictionary.get(key, cwv)\<close>.
\<close>

type_synonym dictionary = "string \<rightharpoonup> cwv_class"

definition row_key :: "string \<Rightarrow> string" where
  "row_key row = replace_dot_comma_space (hd (split_on CHR ''|'' row))"

definition row_class :: "string list \<Rightarrow> string \<Rightarrow> cwv_class" where
  "row_class fieldnames row =
     (let elements = split_on CHR ''|'' row in
      \<lparr> typename = row_key row,
        fields_of = map replace_dot_comma_space (take 10 fieldnames),
        subrange = is_number (elements ! 0),
        b0 = is_number (elements ! 1),
        b1 = is_number (elements ! 2),
        b2 = is_number (elements ! 3),
        b3 = is_number (elements ! 4),
        b4 = is_number (elements ! 5),
        b5 = is_number (elements ! 6),
        b6 = is_number (elements ! 7),
        b7 = is_number (elements ! 8),
        rmse = is_number (elements ! 9) \<rparr>)"

definition row_error :: "string list \<Rightarrow> string \<Rightarrow> error option" where
  "row_error fieldnames row =
     (let elements = split_on CHR ''|'' row in
      if length fieldnames < 10 then Some (IndexError ''fields'' (length fieldnames))
      else (case namedtuple (row_key row) (map replace_dot_comma_space (take 10 fieldnames)) of
              Some e \<Rightarrow> Some e
            | None \<Rightarrow>
                if length elements < 10 then Some (IndexError ''elements'' (length elements))
                else None))"

definition transform_cwv :: "string list \<Rightarrow> dictionary \<Rightarrow> string \<Rightarrow> error + dictionary" where
  "transform_cwv fieldnames dictionary row =
     (case row_error fieldnames row of
        Some e \<Rightarrow> Inl e
      | None \<Rightarrow>
          Inr (dictionary(row_key row \<mapsto>
                 (case dictionary (row_key row) of
                    None \<Rightarrow> row_class fieldnames row
                  | Some first \<Rightarrow> first))))"

text \<open>\<^verbatim>\<open>map(transform_cwv, rows)\<close>: the rows in order, stopping at the first exception.\<close>

fun map_transform_cwv :: "string list \<Rightarrow> dictionary \<Rightarrow> string list \<Rightarrow> error + dictionary" where
  "map_transform_cwv fieldnames dictionary [] = Inr dictionary"
| "map_transform_cwv fieldnames dictionary (row # rows) =
     (case transform_cwv fieldnames dictionary row of
        Inl e \<Rightarrow> Inl e
      | Inr dictionary' \<Rightarrow> map_transform_cwv fieldnames dictionary' rows)"

text \<open>
  \<^verbatim>\<open>rows = csv.split('\n')\<close>, \<^verbatim>\<open>fields = rows.pop(0).split('|')[1:]\<close>, then the map
  over the rows that are left. (The list \<^verbatim>\<open>fields\<close> is called \<open>fieldnames\<close> here.)
\<close>

definition header_fields :: "string \<Rightarrow> string list" where
  "header_fields csv = tl (split_on CHR ''|'' (hd (split_on CHR 0x0A csv)))"

definition data_rows :: "string \<Rightarrow> string list" where
  "data_rows csv = tl (split_on CHR 0x0A csv)"

definition csv_to_dictionary :: "string \<Rightarrow> error + dictionary" where
  "csv_to_dictionary csv = map_transform_cwv (header_fields csv) Map.empty (data_rows csv)"

text \<open>
  \<^verbatim>\<open>d = csv_to_dictionary(csvstring)\<close> followed by \<^verbatim>\<open>d[somekey]\<close>, as the module's
  test functions do; a key that is not in the dictionary raises \<^verbatim>\<open>KeyError\<close>.
\<close>

definition getitem :: "dictionary \<Rightarrow> string \<Rightarrow> error + cwv_class" where
  "getitem d key = (case d key of None \<Rightarrow> Inl (KeyError key) | Some c \<Rightarrow> Inr c)"

definition lookup :: "string \<Rightarrow> string \<Rightarrow> error + cwv_class" where
  "lookup csv key = (case csv_to_dictionary csv of Inl e \<Rightarrow> Inl e | Inr d \<Rightarrow> getitem d key)"

text \<open>The table that the module itself carries in its variable \<^verbatim>\<open>csv\<close>.\<close>

definition csv :: string where
  "csv = ''Emissivity Class|TIRS10|TIRS11'' @ [CHR 0x0A] @
         ''Cropland|0.971|0.968'' @ [CHR 0x0A] @
         ''Forest|0.995|0.996'' @ [CHR 0x0A] @
         ''Grasslands|0.97|0.971'' @ [CHR 0x0A] @
         ''Shrublands|0.969|0.97'' @ [CHR 0x0A] @
         ''Wetlands|0.992|0.998'' @ [CHR 0x0A] @
         ''Waterbodies|0.992|0.998'' @ [CHR 0x0A] @
         ''Tundra|0.98|0.984'' @ [CHR 0x0A] @
         ''Impervious|0.973|0.981'' @ [CHR 0x0A] @
         ''Barren Land|0.969|0.978'' @ [CHR 0x0A] @
         ''Snow and ice|0.992|0.998''"

section \<open>i.landsat.swlst.py\<close>

subsection \<open>replace\_dummies\<close>

text \<open>
  \<^verbatim>\<open>
  def replace_dummies(string, t10, t11):
      replacements = ('Input_T10', str(t10)), ('Input_T11', str(t11))
      return reduce(lambda alpha, omega: alpha.replace(*omega),
                    replacements, string)
  \<close>
  \<^verbatim>\<open>reduce\<close> is a left fold: the second replacement runs over the result of the first.
\<close>

definition reduce_replace :: "(string \<times> string) list \<Rightarrow> string \<Rightarrow> string" where
  "reduce_replace reps string =
     foldl (\<lambda>alpha omega. py_replace alpha (fst omega) (snd omega)) string reps"

definition replace_dummies :: "string \<Rightarrow> pyval \<Rightarrow> pyval \<Rightarrow> string" where
  "replace_dummies string t10 t11 =
     reduce_replace [(''Input_T10'', py_str t10), (''Input_T11'', py_str t11)] string"

text \<open>
  The binding as the specification words it, for comparison with the code: one pass over the
  expression from the left in which each placeholder token met is replaced by its
  value and the scan continues behind the token, so that no replacement text is looked
  at again.
\<close>

fun spec_first_match :: "(string \<times> string) list \<Rightarrow> string \<Rightarrow> (string \<times> string) option" where
  "spec_first_match [] s = None"
| "spec_first_match (rep # reps) s = (if prefix (fst rep) s then Some rep else spec_first_match reps s)"

fun spec_bind :: "(string \<times> string) list \<Rightarrow> string \<Rightarrow> string" where
  "spec_bind reps [] = []"
| "spec_bind reps (c # cs) =
     (case spec_first_match reps (c # cs) of
        None \<Rightarrow> c # spec_bind reps cs
      | Some rep \<Rightarrow> snd rep @ spec_bind reps (drop (length (fst rep) - 1) cs))"

section \<open>Double precision\<close>

text \<open>
  Modelled from the spec: the double-precision numbers in which the specification
  gives the values of the split-window model, whose module \<^verbatim>\<open>split_window_lst\<close> is
  not among the source files. A double is a finite number with its sign (so that there
  are two zeros), an infinity with its sign, or not a number. The magnitude of a finite
  double is a multiple of a power of two, \<open>m \<cdot> 2\<^sup>e\<^sup>-\<^sup>5\<^sup>2\<close> with \<open>m < 2\<^sup>5\<^sup>3\<close> and
  \<open>-1022 \<le> e \<le> 1023\<close>; every operation returns the double nearest to the exact
  result, the one with the even \<open>m\<close> when two are equally near (IEEE 754 binary64,
  round to nearest even).
\<close>

datatype double = Finite bool rat | Infinite bool | NaN

definition pow2 :: "int \<Rightarrow> rat" where
  "pow2 k = (if 0 \<le> k then 2 ^ nat k else 1 / 2 ^ nat (- k))"

text \<open>The exponent of a positive number \<open>x\<close>: the \<open>e\<close> with \<open>2\<^sup>e \<le> x < 2\<^sup>e\<^sup>+\<^sup>1\<close>.\<close>

function ilog2 :: "rat \<Rightarrow> int" where
  "ilog2 x =
     (if x \<le> 0 then 0
      else if 2 \<le> x then ilog2 (x / 2) + 1
      else if x < 1 then ilog2 (2 * x) - 1
      else 0)"
  by pat_completeness auto
termination
proof (relation "measure (\<lambda>x. 2 * nat \<lceil>1 / x\<rceil> + nat \<lfloor>x\<rfloor>)")
  show "wf (measure (\<lambda>x::rat. 2 * nat \<lceil>1 / x\<rceil> + nat \<lfloor>x\<rfloor>))" by simp
next
  fix x :: rat
  assume a: "\<not> x \<le> 0" "2 \<le> x"
  then have "1 / x \<le> 1" "0 < 1 / x" by simp_all
  then have c1: "\<lceil>1 / x\<rceil> = 1" by (simp add: ceiling_eq_iff)
  from a have "1 / (x / 2) \<le> 1" "0 < 1 / (x / 2)" by simp_all
  then have c2: "\<lceil>1 / (x / 2)\<rceil> = 1" by (simp only: ceiling_eq_iff) simp
  have "\<lfloor>x / 2\<rfloor> < \<lfloor>x\<rfloor>"
  proof -
    have "x / 2 + 1 \<le> x" using a by simp
    then have "\<lfloor>x / 2 + 1\<rfloor> \<le> \<lfloor>x\<rfloor>" by (rule floor_mono)
    then show ?thesis by simp
  qed
  moreover have "0 \<le> \<lfloor>x / 2\<rfloor>" using a by simp
  ultimately have "nat \<lfloor>x / 2\<rfloor> < nat \<lfloor>x\<rfloor>" by linarith
  with c1 c2 have "2 * nat \<lceil>1 / (x / 2)\<rceil> + nat \<lfloor>x / 2\<rfloor> < 2 * nat \<lceil>1 / x\<rceil> + nat \<lfloor>x\<rfloor>"
    by linarith
  then show "(x / 2, x) \<in> measure (\<lambda>x. 2 * nat \<lceil>1 / x\<rceil> + nat \<lfloor>x\<rfloor>)"
    by (simp only: in_measure)
next
  fix x :: rat
  assume a: "\<not> x \<le> 0" "\<not> 2 \<le> x" "x < 1"
  then have f0: "\<lfloor>x\<rfloor> = 0" by (simp add: floor_eq_iff)
  from a have "\<lfloor>2 * x\<rfloor> < 2" by (simp add: floor_less_iff)
  then have f1: "nat \<lfloor>2 * x\<rfloor> \<le> 1" by linarith
  have "\<lceil>1 / (2 * x)\<rceil> < \<lceil>1 / x\<rceil>"
  proof -
    define c where "c = \<lceil>1 / x\<rceil>"
    from a have "1 < 1 / x" by simp
    then have "2 \<le> c" by (simp add: c_def le_ceiling_iff)
    then have c2: "(2::rat) \<le> of_int c" by linarith
    have "1 / x \<le> of_int c" by (simp add: c_def)
    then have "1 / (2 * x) \<le> of_int c / 2" by simp
    with c2 have "1 / (2 * x) \<le> of_int (c - 1)" by simp
    then have "\<lceil>1 / (2 * x)\<rceil> \<le> c - 1" by (simp only: ceiling_le_iff)
    then show ?thesis by (simp add: c_def)
  qed
  then have "nat \<lceil>1 / (2 * x)\<rceil> < nat \<lceil>1 / x\<rceil>"
    using a by (simp only: zless_nat_conj) simp
  with f1 have "2 * nat \<lceil>1 / (2 * x)\<rceil> + nat \<lfloor>2 * x\<rfloor> < 2 * nat \<lceil>1 / x\<rceil> + nat \<lfloor>x\<rfloor>"
    by linarith
  then show "(2 * x, x) \<in> measure (\<lambda>x. 2 * nat \<lceil>1 / x\<rceil> + nat \<lfloor>x\<rfloor>)"
    by (simp only: in_measure)
qed


declare ilog2.simps [simp del]

text \<open>The nearest integer, the even one of two that are equally near.\<close>

definition rne :: "rat \<Rightarrow> int" where
  "rne y =
     (let f = \<lfloor>y\<rfloor>; d = y - of_int f in
      if d < 1 / 2 then f
      else if 1 / 2 < d then f + 1
      else if even f then f else f + 1)"

text \<open>
  The double nearest to the exact magnitude \<open>x \<ge> 0\<close>, with sign \<open>s\<close> (\<open>True\<close> for
  minus). Below \<open>2\<^sup>-\<^sup>1\<^sup>0\<^sup>2\<^sup>2\<close> the spacing stays \<open>2\<^sup>-\<^sup>1\<^sup>0\<^sup>7\<^sup>4\<close> (subnormal numbers, down to
  zero); a result of \<open>2\<^sup>1\<^sup>0\<^sup>2\<^sup>4\<close> or more is an infinity.
\<close>

definition round_double :: "bool \<Rightarrow> rat \<Rightarrow> double" where
  "round_double s x =
     (if x = 0 then Finite s 0
      else (let e = max (ilog2 x) (- 1022);
                m = rne (x / pow2 (e - 52))
            in if 1023 < e \<or> (e = 1023 \<and> m = 2 ^ 53) then Infinite s
               else Finite s (of_int m * pow2 (e - 52))))"

text \<open>The double that a decimal literal denotes.\<close>

definition double_of_rat :: "rat \<Rightarrow> double" where
  "double_of_rat x = round_double (x < 0) \<bar>x\<bar>"

definition signed :: "bool \<Rightarrow> rat \<Rightarrow> rat" where
  "signed s m = (if s then - m else m)"

fun fneg :: "double \<Rightarrow> double" where
  "fneg (Finite s m) = Finite (\<not> s) m"
| "fneg (Infinite s) = Infinite (\<not> s)"
| "fneg NaN = NaN"

text \<open>
  An exact sum of zero is the positive zero, unless both summands are negative zeros.
\<close>

fun fadd :: "double \<Rightarrow> double \<Rightarrow> double" where
  "fadd (Finite s m) (Finite t n) =
     (let r = signed s m + signed t n in
      if r = 0 then Finite (s \<and> t) 0 else round_double (r < 0) \<bar>r\<bar>)"
| "fadd (Finite s m) (Infinite t) = Infinite t"
| "fadd (Infinite s) (Finite t n) = Infinite s"
| "fadd (Infinite s) (Infinite t) = (if s = t then Infinite s else NaN)"
| "fadd NaN b = NaN"
| "fadd a NaN = NaN"

definition fsub :: "double \<Rightarrow> double \<Rightarrow> double" where
  "fsub a b = fadd a (fneg b)"

fun fmul :: "double \<Rightarrow> double \<Rightarrow> double" where
  "fmul (Finite s m) (Finite t n) = round_double (s \<noteq> t) (m * n)"
| "fmul (Finite s m) (Infinite t) = (if m = 0 then NaN else Infinite (s \<noteq> t))"
| "fmul (Infinite s) (Finite t n) = (if n = 0 then NaN else Infinite (s \<noteq> t))"
| "fmul (Infinite s) (Infinite t) = Infinite (s \<noteq> t)"
| "fmul NaN b = NaN"
| "fmul a NaN = NaN"

fun fdiv :: "double \<Rightarrow> double \<Rightarrow> double" where
  "fdiv (Finite s m) (Finite t n) =
     (if n = 0 then (if m = 0 then NaN else Infinite (s \<noteq> t))
      else round_double (s \<noteq> t) (m / n))"
| "fdiv (Finite s m) (Infinite t) = Finite (s \<noteq> t) 0"
| "fdiv (Infinite s) (Finite t n) = Infinite (s \<noteq> t)"
| "fdiv (Infinite s) (Infinite t) = NaN"
| "fdiv NaN b = NaN"
| "fdiv a NaN = NaN"

text \<open>Comparison by value: the two zeros are equal, and nothing compares with \<open>NaN\<close>.\<close>

fun flt :: "double \<Rightarrow> double \<Rightarrow> bool" where
  "flt (Finite s m) (Finite t n) = (signed s m < signed t n)"
| "flt (Finite s m) (Infinite t) = (\<not> t)"
| "flt (Infinite s) (Finite t n) = s"
| "flt (Infinite s) (Infinite t) = (s \<and> \<not> t)"
| "flt NaN b = False"
| "flt a NaN = False"

fun feq :: "double \<Rightarrow> double \<Rightarrow> bool" where
  "feq (Finite s m) (Finite t n) = (signed s m = signed t n)"
| "feq (Infinite s) (Infinite t) = (s = t)"
| "feq a b = False"

definition dzero :: double where
  "dzero = Finite False 0"

section \<open>The split-window model\<close>

text \<open>
  Modelled from the spec: the data of the split-window model (an emissivity pair, a
  coefficient set, and the model built from them with its derived \<open>\<epsilon>\<close> and
  \<open>\<Delta>\<epsilon>\<close>), in double precision. The class \<^verbatim>\<open>SplitWindowLST\<close> that
  \<^verbatim>\<open>main\<close> uses is imported from the module \<^verbatim>\<open>split_window_lst\<close>, which is not
  among the source files.
\<close>

record emissivity =
  eps_i :: double
  eps_j :: double

record coefficients =
  c_b0 :: double
  c_b1 :: double
  c_b2 :: double
  c_b3 :: double
  c_b4 :: double
  c_b5 :: double
  c_b6 :: double
  c_b7 :: double
  c_rmse :: double

record split_window_model =
  emis :: emissivity
  coef :: coefficients
  avg_eps :: double
  delta_eps :: double

datatype model_error = DomainError

text \<open>
  Modelled from the spec: the constructor of the model, missing with the module
  \<^verbatim>\<open>split_window_lst\<close>. It derives \<open>\<epsilon> = 0.5 (\<epsilon>\<^sub>i + \<epsilon>\<^sub>j)\<close> and
  \<open>\<Delta>\<epsilon> = \<epsilon>\<^sub>i - \<epsilon>\<^sub>j\<close> and checks nothing: construction never fails.
\<close>

definition SplitWindowModel :: "emissivity \<Rightarrow> coefficients \<Rightarrow> split_window_model" where
  "SplitWindowModel e c =
     \<lparr> emis = e, coef = c,
       avg_eps = fmul (double_of_rat 0.5) (fadd (eps_i e) (eps_j e)),
       delta_eps = fsub (eps_i e) (eps_j e) \<rparr>"

text \<open>
  Modelled from the spec: the operation \<^verbatim>\<open>compute(t_i, t_j)\<close>, missing with the module
  \<^verbatim>\<open>split_window_lst\<close>. At this first use it validates \<open>\<epsilon>\<^sub>i > 0\<close> and
  \<open>\<epsilon>\<^sub>j > 0\<close>; it fails with \<open>DomainError\<close> when the validation fails or when
  \<open>\<epsilon> = 0\<close>, and otherwise evaluates
  \<^verbatim>\<open>
  LST = b0
      + (b1 + b2*(1-e)/e + b3*de/e^2) * (t_i + t_j)/2
      + (b4 + b5*(1-e)/e + b6*de/e^2) * (t_i - t_j)/2
      + b7 * (t_i - t_j)^2
  \<close>
  from the left, products and quotients before sums, every operation rounded; a square
  is the product of the number with itself.
\<close>

definition compute :: "split_window_model \<Rightarrow> double \<Rightarrow> double \<Rightarrow> model_error + double" where
  "compute m t_i t_j =
     (let e = avg_eps m; de = delta_eps m; c = coef m;
          one = double_of_rat 1; two = double_of_rat 2;
          r1 = fdiv (fmul (c_b2 c) (fsub one e)) e;
          r2 = fdiv (fmul (c_b3 c) de) (fmul e e);
          r3 = fdiv (fmul (c_b5 c) (fsub one e)) e;
          r4 = fdiv (fmul (c_b6 c) de) (fmul e e);
          term1 = fdiv (fmul (fadd (fadd (c_b1 c) r1) r2) (fadd t_i t_j)) two;
          term2 = fdiv (fmul (fadd (fadd (c_b4 c) r3) r4) (fsub t_i t_j)) two;
          term3 = fmul (c_b7 c) (fmul (fsub t_i t_j) (fsub t_i t_j))
      in if \<not> (flt dzero (eps_i (emis m)) \<and> flt dzero (eps_j (emis m))) then Inl DomainError
         else if feq e dzero then Inl DomainError
         else Inr (fadd (fadd (fadd (c_b0 c) term1) term2) term3))"

section \<open>Example tables\<close>

text \<open>
  A table with a key column and ten further columns, as the CWV transform needs it. Its
  data row has as many values as the header has field names.
\<close>

definition table_a :: string where
  "table_a = ''Subrange|b0|b1|b2|b3|b4|b5|b6|b7|rmse|source'' @ [CHR 0x0A] @
             ''S1|0.5|1|0|0|0|0|0|0|n/a|Du2015''"

text \<open>A table in the ten-column CWV format of the specification.\<close>

definition table_spec :: string where
  "table_spec = ''SubrangeId|b0|b1|b2|b3|b4|b5|b6|b7|rmse'' @ [CHR 0x0A] @
                ''S1|0.5|1|0|0|0|0|0|0|0.1''"

text \<open>A table whose second and third data rows have keys that are equal after canonicalization.\<close>

definition table_dup :: string where
  "table_dup = ''Subrange|b0|b1|b2|b3|b4|b5|b6|b7|rmse|source'' @ [CHR 0x0A] @
               ''S0|0.3|1|0|0|0|0|0|0|0.4|other'' @ [CHR 0x0A] @
               ''S 1|0.5|1|0|0|0|0|0|0|0.1|first'' @ [CHR 0x0A] @
               ''S_1|9|9|9|9|9|9|9|9|9|second''"

text \<open>A complete row followed by a row of three columns that has the same key.\<close>

definition table_dup_short :: string where
  "table_dup_short = ''Subrange|b0|b1|b2|b3|b4|b5|b6|b7|rmse|source'' @ [CHR 0x0A] @
                     ''S1|0.5|1|0|0|0|0|0|0|0.1|Du2015'' @ [CHR 0x0A] @
                     ''S1|0.7|1''"

text \<open>
  The header names ten fields; the first data row has nine values and the second has
  eleven.
\<close>

definition table_counts :: string where
  "table_counts = ''Subrange|b0|b1|b2|b3|b4|b5|b6|b7|rmse|source'' @ [CHR 0x0A] @
                  ''S1|0.5|1|0|0|0|0|0|0|0.1'' @ [CHR 0x0A] @
                  ''S2|0.7|1|0|0|0|0|0|0|0.2|Du2015|extra''"

text \<open>A complete row followed by a row of three columns.\<close>

definition table_short :: string where
  "table_short = ''Subrange|b0|b1|b2|b3|b4|b5|b6|b7|rmse|source'' @ [CHR 0x0A] @
                 ''S1|0.5|1|0|0|0|0|0|0|0.1|Du2015'' @ [CHR 0x0A] @
                 ''S2|0.7|1''"

text \<open>Rows of three columns under a header of eleven; the second table has a key that is no identifier.\<close>

definition table_three :: string where
  "table_three = ''Class|a|b|c|d|e|f|g|h|i|j'' @ [CHR 0x0A] @
                 ''Cropland|0.971|0.968'' @ [CHR 0x0A] @
                 ''Forest|0.995|0.996''"

definition table_minus :: string where
  "table_minus = ''Class|a|b|c|d|e|f|g|h|i|j'' @ [CHR 0x0A] @
                 ''Semi-arid|0.971|0.968''"

section \<open>Properties of the table construction\<close>

lemma transform_cwv_Inr:
  "transform_cwv f d row = Inr d1 \<Longrightarrow>
     row_error f row = None \<and>
     d1 = d(row_key row \<mapsto> (case d (row_key row) of None \<Rightarrow> row_class f row | Some first \<Rightarrow> first))"
  by (auto simp: transform_cwv_def split: option.splits)

lemma transform_cwv_Inl:
  "transform_cwv f d row = Inl e \<longleftrightarrow> row_error f row = Some e"
  by (auto simp: transform_cwv_def split: option.splits)

text \<open>What a lookup in the finished dictionary finds: an entry that was there before, or the class of the first row with the key.\<close>

lemma map_transform_cwv_get:
  "map_transform_cwv f d rows = Inr d' \<Longrightarrow>
     d' k = (case d k of
               Some v \<Rightarrow> Some v
             | None \<Rightarrow> map_option (row_class f) (find (\<lambda>r. row_key r = k) rows))"
proof (induction rows arbitrary: d)
  case Nil
  then show ?case by (simp split: option.splits)
next
  case (Cons row rows)
  from Cons.prems obtain d1 where t: "transform_cwv f d row = Inr d1"
    and m: "map_transform_cwv f d1 rows = Inr d'"
    by (auto split: sum.splits)
  from transform_cwv_Inr [OF t]
  have d1: "d1 = d(row_key row \<mapsto> (case d (row_key row) of None \<Rightarrow> row_class f row | Some first \<Rightarrow> first))"
    by simp
  show ?case
    unfolding Cons.IH [OF m] d1
    by (simp split: option.splits)
qed

lemma map_transform_cwv_rows_ok:
  "map_transform_cwv f d rows = Inr d' \<Longrightarrow> list_all (\<lambda>r. row_error f r = None) rows"
proof (induction rows arbitrary: d)
  case Nil
  then show ?case by simp
next
  case (Cons row rows)
  from Cons.prems obtain d1 where t: "transform_cwv f d row = Inr d1"
    and m: "map_transform_cwv f d1 rows = Inr d'"
    by (auto split: sum.splits)
  from transform_cwv_Inr [OF t] Cons.IH [OF m] show ?case by simp
qed

lemma map_transform_cwv_fails:
  "row \<in> set rows \<Longrightarrow> row_error f row \<noteq> None \<Longrightarrow>
     \<exists>e r. map_transform_cwv f d rows = Inl e \<and> r \<in> set rows \<and> row_error f r = Some e"
proof (induction rows arbitrary: d)
  case Nil
  then show ?case by simp
next
  case (Cons a rows)
  show ?case
  proof (cases "transform_cwv f d a")
    case (Inl e)
    then have "row_error f a = Some e" by (simp add: transform_cwv_Inl)
    with Inl show ?thesis by auto
  next
    case (Inr d1)
    with transform_cwv_Inr [OF Inr] Cons.prems have "row \<in> set rows" by auto
    from Cons.IH [OF this Cons.prems(2), of d1] Inr show ?thesis by auto
  qed
qed

lemma row_error_short:
  "length (split_on CHR ''|'' row) < 10 \<Longrightarrow> row_error f row \<noteq> None"
  by (auto simp: row_error_def Let_def split: option.splits)

lemma find_distinct_key:
  "distinct (map g xs) \<Longrightarrow> x \<in> set xs \<Longrightarrow> find (\<lambda>r. g r = g x) xs = Some x"
  by (induction xs) (auto simp: image_iff)

lemma find_first_key:
  "list_all (\<lambda>r. g r \<noteq> k) pre \<Longrightarrow> g x = k \<Longrightarrow> find (\<lambda>r. g r = k) (pre @ x # rest) = Some x"
  by (induction pre) auto

lemma map_transform_cwv_succeeds:
  "list_all (\<lambda>r. row_error f r = None) rows \<Longrightarrow> \<exists>d'. map_transform_cwv f d rows = Inr d'"
  by (induction rows arbitrary: d) (auto simp: transform_cwv_def)

lemma find_app:
  "find P (xs @ ys) = (case find P xs of None \<Rightarrow> find P ys | Some x \<Rightarrow> Some x)"
  by (induction xs) auto

lemma find_drop_later:
  assumes "list_all (\<lambda>r. g r \<noteq> g x) pre" and "g dup = g x"
  shows "find (\<lambda>r. g r = k) (pre @ x # mid @ dup # rest) = find (\<lambda>r. g r = k) (pre @ x # mid @ rest)"
  using assms(2) by (auto simp: find_app split: option.splits)

lemma is_number_cases:
  "is_number v = (if float_parses v \<or> complex_parses v then PyStr v else PyBool False)"
  by (simp add: is_number_def)

lemma lookup_Inl:
  "lookup t k = Inl e \<Longrightarrow> e \<noteq> KeyError k \<Longrightarrow> csv_to_dictionary t = Inl e"
  by (auto simp: lookup_def getitem_def split: sum.splits option.splits)

lemma not_isl_obtain:
  "\<not> isl r \<Longrightarrow> \<exists>d. r = Inr d"
  by (cases r) auto

section \<open>Round trip through the table\<close>

text \<open>
  C1, as the specification states it: for a table with well-formed rows and pairwise
  distinct keys, a lookup returns the field values of the key's row, numeric fields as
  numbers and the others verbatim as strings. The code does not: from \<open>table_a\<close> the
  numeric field \<^verbatim>\<open>0.5\<close> comes back as the string it was, the field \<^verbatim>\<open>n/a\<close>
  comes back as \<^verbatim>\<open>False\<close>, the key column is read as the attribute
  \<^verbatim>\<open>subrange\<close> and the eleventh column is not read at all; and a table in the
  ten-column format of the specification is not parsed, because \<^verbatim>\<open>fields[9]\<close> is out
  of range.
\<close>

theorem lookup_round_trip_counterexample:
  "lookup table_a ''S1'' =
     Inr \<lparr> typename = ''S1'',
           fields_of = [''b0'', ''b1'', ''b2'', ''b3'', ''b4'', ''b5'', ''b6'', ''b7'', ''rmse'', ''source''],
           subrange = PyBool False, b0 = PyStr ''0.5'', b1 = PyStr ''1'', b2 = PyStr ''0'',
           b3 = PyStr ''0'', b4 = PyStr ''0'', b5 = PyStr ''0'', b6 = PyStr ''0'',
           b7 = PyStr ''0'', rmse = PyBool False \<rparr>
   \<and> lookup table_spec ''S1'' = Inl (IndexError ''fields'' 9)"
  by code_simp

text \<open>
  C1, amended: whenever the construction returns a dictionary and the canonical keys of
  the data rows are pairwise distinct, every data row has at least ten columns and the
  lookup of its canonical key returns a class whose attributes \<^verbatim>\<open>subrange\<close>,
  \<^verbatim>\<open>b0\<close>, ..., \<^verbatim>\<open>b7\<close>, \<^verbatim>\<open>rmse\<close> are the values of \<^verbatim>\<open>is_number\<close> at the
  first ten columns of the row (the key column included): the column's own text,
  unconverted, when it parses as a float or as a complex number, and \<^verbatim>\<open>False\<close>
  otherwise.
\<close>

theorem lookup_distinct_keys:
  assumes "csv_to_dictionary tbl = Inr d"
    and "distinct (map row_key (data_rows tbl))"
    and "row \<in> set (data_rows tbl)"
    and "elements = split_on CHR ''|'' row"
  shows "10 \<le> length elements \<and>
         (\<exists>c. d (row_key row) = Some c
            \<and> subrange c = is_number (elements ! 0)
            \<and> b0 c = is_number (elements ! 1) \<and> b1 c = is_number (elements ! 2)
            \<and> b2 c = is_number (elements ! 3) \<and> b3 c = is_number (elements ! 4)
            \<and> b4 c = is_number (elements ! 5) \<and> b5 c = is_number (elements ! 6)
            \<and> b6 c = is_number (elements ! 7) \<and> b7 c = is_number (elements ! 8)
            \<and> rmse c = is_number (elements ! 9))
       \<and> list_all (\<lambda>v. is_number v = (if float_parses v \<or> complex_parses v then PyStr v else PyBool False)) elements"
proof -
  let ?f = "header_fields tbl"
  from assms(1) have m: "map_transform_cwv ?f Map.empty (data_rows tbl) = Inr d"
    by (simp add: csv_to_dictionary_def)
  from map_transform_cwv_rows_ok [OF m] assms(3) have "row_error ?f row = None"
    by (simp add: list_all_iff)
  then have len: "10 \<le> length elements"
    using row_error_short [of row ?f] assms(4) by (cases "length elements < 10") auto
  from find_distinct_key [OF assms(2) assms(3)]
  have "find (\<lambda>r. row_key r = row_key row) (data_rows tbl) = Some row" .
  with map_transform_cwv_get [OF m, of "row_key row"]
  have "d (row_key row) = Some (row_class ?f row)" by simp
  then have cls: "\<exists>c. d (row_key row) = Some c
            \<and> subrange c = is_number (elements ! 0)
            \<and> b0 c = is_number (elements ! 1) \<and> b1 c = is_number (elements ! 2)
            \<and> b2 c = is_number (elements ! 3) \<and> b3 c = is_number (elements ! 4)
            \<and> b4 c = is_number (elements ! 5) \<and> b5 c = is_number (elements ! 6)
            \<and> b6 c = is_number (elements ! 7) \<and> b7 c = is_number (elements ! 8)
            \<and> rmse c = is_number (elements ! 9)"
    by (simp add: row_class_def Let_def assms(4))
  have "list_all (\<lambda>v. is_number v = (if float_parses v \<or> complex_parses v then PyStr v else PyBool False)) elements"
    by (simp add: list_all_iff is_number_cases)
  with len cls show ?thesis by blast
qed

theorem lookup_distinct_keys_witness:
  "distinct (map row_key (data_rows table_a))
   \<and> ''S1|0.5|1|0|0|0|0|0|0|n/a|Du2015'' \<in> set (data_rows table_a)
   \<and> (\<exists>d c. csv_to_dictionary table_a = Inr d \<and> d ''S1'' = Some c
        \<and> subrange c = PyBool False \<and> b0 c = PyStr ''0.5'' \<and> rmse c = PyBool False)"
proof -
  let ?row = "''S1|0.5|1|0|0|0|0|0|0|n/a|Du2015''"
  have "\<not> isl (csv_to_dictionary table_a)" by code_simp
  then obtain d where d: "csv_to_dictionary table_a = Inr d"
    using not_isl_obtain by blast
  have dist: "distinct (map row_key (data_rows table_a))" by code_simp
  have row: "?row \<in> set (data_rows table_a)" by code_simp
  have key: "row_key ?row = ''S1''" by code_simp
  have v0: "is_number (split_on CHR ''|'' ?row ! 0) = PyBool False" by code_simp
  have v1: "is_number (split_on CHR ''|'' ?row ! 1) = PyStr ''0.5''" by code_simp
  have v9: "is_number (split_on CHR ''|'' ?row ! 9) = PyBool False" by code_simp
  from lookup_distinct_keys [OF d dist row refl]
  obtain c where "d (row_key ?row) = Some c"
    and "subrange c = is_number (split_on CHR ''|'' ?row ! 0)"
    and "b0 c = is_number (split_on CHR ''|'' ?row ! 1)"
    and "rmse c = is_number (split_on CHR ''|'' ?row ! 9)"
    by blast
  with key v0 v1 v9 have "d ''S1'' = Some c \<and> subrange c = PyBool False
      \<and> b0 c = PyStr ''0.5'' \<and> rmse c = PyBool False"
    by simp
  with d dist row show ?thesis by blast
qed

section \<open>Rows with the same key\<close>

text \<open>
  C6, as the specification states it: in every table with two or more rows whose keys
  are equal after canonicalization, the first such row wins and the later ones are
  silently discarded. A later row with the same key still goes through the whole CWV
  transform before \<^verbatim>\<open>dictionary.get\<close> is reached: in \<open>table_dup_short\<close> the second
  row has the key of the first and three columns, and it is not discarded but raises
  the out-of-range access \<^verbatim>\<open>elements[3]\<close>, so that no dictionary is returned.
\<close>

theorem later_duplicate_counterexample:
  "data_rows table_dup_short = [''S1|0.5|1|0|0|0|0|0|0|0.1|Du2015'', ''S1|0.7|1'']
   \<and> row_key ''S1|0.5|1|0|0|0|0|0|0|0.1|Du2015'' = ''S1''
   \<and> row_key ''S1|0.7|1'' = ''S1''
   \<and> csv_to_dictionary table_dup_short = Inl (IndexError ''elements'' 3)
   \<and> lookup table_dup_short ''S1'' = Inl (IndexError ''elements'' 3)"
proof -
  have rows: "data_rows table_dup_short = [''S1|0.5|1|0|0|0|0|0|0|0.1|Du2015'', ''S1|0.7|1'']"
    by code_simp
  have k1: "row_key ''S1|0.5|1|0|0|0|0|0|0|0.1|Du2015'' = ''S1''" by code_simp
  have k2: "row_key ''S1|0.7|1'' = ''S1''" by code_simp
  have look: "lookup table_dup_short ''S1'' = Inl (IndexError ''elements'' 3)" by code_simp
  then have "csv_to_dictionary table_dup_short = Inl (IndexError ''elements'' 3)"
    by (rule lookup_Inl) simp
  with rows k1 k2 look show ?thesis by blast
qed

text \<open>
  C6, amended: for every table text on which the construction returns a dictionary
  (every data row passes the CWV transform) and which contains two or more rows whose
  keys are equal after canonicalization, the first such row wins: the key is bound to
  the class made from the first row that has it, and a later row with the same key is
  dropped without a trace, the dictionary being the one that the rows without it give.
\<close>

theorem first_row_wins:
  assumes "csv_to_dictionary tbl = Inr d"
    and "data_rows tbl = pre @ first # mid @ dup # rest"
    and "list_all (\<lambda>r. row_key r \<noteq> row_key first) pre"
    and "row_key dup = row_key first"
  shows "d (row_key first) = Some (row_class (header_fields tbl) first)
       \<and> map_transform_cwv (header_fields tbl) Map.empty (pre @ first # mid @ rest) = Inr d"
proof -
  let ?f = "header_fields tbl"
  from assms(1) have m: "map_transform_cwv ?f Map.empty (data_rows tbl) = Inr d"
    by (simp add: csv_to_dictionary_def)
  from find_first_key [OF assms(3), of first "mid @ dup # rest"]
  have "find (\<lambda>r. row_key r = row_key first) (data_rows tbl) = Some first"
    by (simp add: assms(2))
  with map_transform_cwv_get [OF m, of "row_key first"]
  have wins: "d (row_key first) = Some (row_class ?f first)" by simp
  from map_transform_cwv_rows_ok [OF m]
  have "list_all (\<lambda>r. row_error ?f r = None) (pre @ first # mid @ rest)"
    by (simp add: assms(2))
  from map_transform_cwv_succeeds [OF this]
  obtain d' where m': "map_transform_cwv ?f Map.empty (pre @ first # mid @ rest) = Inr d'"
    by blast
  have "d' k = d k" for k
    unfolding map_transform_cwv_get [OF m'] map_transform_cwv_get [OF m] assms(2)
    using find_drop_later [OF assms(3) assms(4), of k mid rest] by simp
  then have "d' = d" by (rule ext)
  with wins m' show ?thesis by simp
qed

theorem first_row_wins_witness:
  "data_rows table_dup =
     [''S0|0.3|1|0|0|0|0|0|0|0.4|other''] @
     ''S 1|0.5|1|0|0|0|0|0|0|0.1|first'' # [] @ ''S_1|9|9|9|9|9|9|9|9|9|second'' # []
   \<and> row_key ''S0|0.3|1|0|0|0|0|0|0|0.4|other'' = ''S0''
   \<and> row_key ''S 1|0.5|1|0|0|0|0|0|0|0.1|first'' = ''S_1''
   \<and> row_key ''S_1|9|9|9|9|9|9|9|9|9|second'' = ''S_1''
   \<and> (\<exists>d c. csv_to_dictionary table_dup = Inr d \<and> d ''S_1'' = Some c
        \<and> b0 c = PyStr ''0.5'' \<and> rmse c = PyStr ''0.1'')"
proof -
  let ?other = "''S0|0.3|1|0|0|0|0|0|0|0.4|other''"
  let ?first = "''S 1|0.5|1|0|0|0|0|0|0|0.1|first''"
  let ?second = "''S_1|9|9|9|9|9|9|9|9|9|second''"
  have "\<not> isl (csv_to_dictionary table_dup)" by code_simp
  then obtain d where d: "csv_to_dictionary table_dup = Inr d"
    using not_isl_obtain by blast
  have rows: "data_rows table_dup = [?other] @ ?first # [] @ ?second # []"
    by code_simp
  have k0: "row_key ?other = ''S0''" by code_simp
  have k1: "row_key ?first = ''S_1''" by code_simp
  have k2: "row_key ?second = ''S_1''" by code_simp
  have v1: "b0 (row_class (header_fields table_dup) ?first) = PyStr ''0.5''" by code_simp
  have v9: "rmse (row_class (header_fields table_dup) ?first) = PyStr ''0.1''" by code_simp
  have pre: "list_all (\<lambda>r. row_key r \<noteq> row_key ?first) [?other]"
    by (simp add: k0 k1)
  have dup: "row_key ?second = row_key ?first"
    by (simp add: k1 k2)
  from first_row_wins [OF d rows pre dup]
  have "d (row_key ?first) = Some (row_class (header_fields table_dup) ?first)" by blast
  with k1 v1 v9 have "\<exists>c. d ''S_1'' = Some c \<and> b0 c = PyStr ''0.5'' \<and> rmse c = PyStr ''0.1''"
    by simp
  with d rows k0 k1 k2 show ?thesis by blast
qed

section \<open>Rows the construction rejects\<close>

text \<open>
  C7, as the specification states it: a data row whose number of values differs from the
  header's number of fields makes parsing fail with \<open>MalformedRowError\<close>. The code has no
  such check. In \<open>table_counts\<close> the header names ten fields, the first data row has
  nine values and the second has eleven; both rows are accepted.
\<close>

theorem field_count_mismatch_counterexample:
  "length (header_fields table_counts) = 10
   \<and> map (\<lambda>row. length (tl (split_on CHR ''|'' row))) (data_rows table_counts) = [9, 11]
   \<and> lookup table_counts ''S1'' =
       Inr \<lparr> typename = ''S1'',
             fields_of = [''b0'', ''b1'', ''b2'', ''b3'', ''b4'', ''b5'', ''b6'', ''b7'', ''rmse'', ''source''],
             subrange = PyBool False, b0 = PyStr ''0.5'', b1 = PyStr ''1'', b2 = PyStr ''0'',
             b3 = PyStr ''0'', b4 = PyStr ''0'', b5 = PyStr ''0'', b6 = PyStr ''0'',
             b7 = PyStr ''0'', rmse = PyStr ''0.1'' \<rparr>
   \<and> lookup table_counts ''S2'' =
       Inr \<lparr> typename = ''S2'',
             fields_of = [''b0'', ''b1'', ''b2'', ''b3'', ''b4'', ''b5'', ''b6'', ''b7'', ''rmse'', ''source''],
             subrange = PyBool False, b0 = PyStr ''0.7'', b1 = PyStr ''1'', b2 = PyStr ''0'',
             b3 = PyStr ''0'', b4 = PyStr ''0'', b5 = PyStr ''0'', b6 = PyStr ''0'',
             b7 = PyStr ''0'', rmse = PyStr ''0.2'' \<rparr>"
  by code_simp

text \<open>
  C7, amended: for every table text containing a data row with fewer than ten columns
  (the key column counted), the construction aborts: it raises the exception of a data
  row that cannot be transformed, an out-of-range index or a name that
  \<^verbatim>\<open>namedtuple\<close> rejects. No row is compared with the header's field count.
\<close>

theorem short_row_aborts:
  assumes "row \<in> set (data_rows tbl)"
    and "length (split_on CHR ''|'' row) < 10"
  shows "\<exists>e r. csv_to_dictionary tbl = Inl e
           \<and> r \<in> set (data_rows tbl) \<and> row_error (header_fields tbl) r = Some e"
  unfolding csv_to_dictionary_def
  using map_transform_cwv_fails [OF assms(1) row_error_short [OF assms(2)]] .

theorem short_row_aborts_witness:
  "''S2|0.7|1'' \<in> set (data_rows table_short)
   \<and> length (split_on CHR ''|'' ''S2|0.7|1'') < 10
   \<and> csv_to_dictionary table_short = Inl (IndexError ''elements'' 3)"
proof -
  have row: "''S2|0.7|1'' \<in> set (data_rows table_short)" by code_simp
  have len: "length (split_on CHR ''|'' ''S2|0.7|1'') < 10" by code_simp
  have ok: "row_error (header_fields table_short) ''S1|0.5|1|0|0|0|0|0|0|0.1|Du2015'' = None"
    by code_simp
  have bad: "row_error (header_fields table_short) ''S2|0.7|1'' = Some (IndexError ''elements'' 3)"
    by code_simp
  have rows: "data_rows table_short = [''S1|0.5|1|0|0|0|0|0|0|0.1|Du2015'', ''S2|0.7|1'']"
    by code_simp
  from short_row_aborts [OF row len]
  obtain e r where e: "csv_to_dictionary table_short = Inl e"
    and r: "r \<in> set (data_rows table_short)"
    and re: "row_error (header_fields table_short) r = Some e"
    by blast
  from r re rows ok bad have "e = IndexError ''elements'' 3" by auto
  with e row len show ?thesis by simp
qed

section \<open>The CWV transform on short rows\<close>

text \<open>
  C10, as stated: every table whose data rows have fewer than ten fields fails with an
  out-of-range access to one of \<^verbatim>\<open>elements[3]\<close> to \<^verbatim>\<open>elements[9]\<close>, the
  module's own table included. For the module's own table the access that is out of
  range is \<^verbatim>\<open>fields[2]\<close>, evaluated before \<^verbatim>\<open>namedtuple\<close> is called and before
  any element is read; under a header of eleven columns a key that is not an identifier
  makes \<^verbatim>\<open>namedtuple\<close> raise \<^verbatim>\<open>ValueError\<close> before any element is read; and a table
  of a header line alone has no data row and yields the empty dictionary.
\<close>

theorem short_rows_counterexample:
  "csv_to_dictionary csv = Inl (IndexError ''fields'' 2)
   \<and> csv_to_dictionary table_minus = Inl (ValueError ''Semi-arid'')
   \<and> data_rows ''Emissivity Class|TIRS10|TIRS11'' = []
   \<and> \<not> isl (csv_to_dictionary ''Emissivity Class|TIRS10|TIRS11'')
   \<and> lookup ''Emissivity Class|TIRS10|TIRS11'' ''Cropland'' = Inl (KeyError ''Cropland'')"
proof -
  have "lookup csv ''Cropland'' = Inl (IndexError ''fields'' 2)" by code_simp
  then have own: "csv_to_dictionary csv = Inl (IndexError ''fields'' 2)"
    by (rule lookup_Inl) simp
  have "lookup table_minus ''Semi_arid'' = Inl (ValueError ''Semi-arid'')" by code_simp
  then have minus: "csv_to_dictionary table_minus = Inl (ValueError ''Semi-arid'')"
    by (rule lookup_Inl) simp
  have none: "data_rows ''Emissivity Class|TIRS10|TIRS11'' = []" by code_simp
  have empty: "lookup ''Emissivity Class|TIRS10|TIRS11'' ''Cropland'' = Inl (KeyError ''Cropland'')"
    by code_simp
  have built: "\<not> isl (csv_to_dictionary ''Emissivity Class|TIRS10|TIRS11'')" by code_simp
  from own minus none built empty show ?thesis by blast
qed

text \<open>
  C10, amended: every data row goes through the CWV transform, so for every table whose
  first data row has fewer than ten columns the construction fails at that row: with
  the out-of-range access \<^verbatim>\<open>fields[n]\<close> when the header has only \<open>n < 10\<close> columns
  behind the key column, else with the error of \<^verbatim>\<open>namedtuple\<close> when it rejects the
  names, else with the out-of-range access \<^verbatim>\<open>elements[m]\<close>, \<open>m\<close> being the number of
  columns of the row.
\<close>

theorem first_short_row_fails:
  assumes "data_rows tbl = row # rows"
    and "length (split_on CHR ''|'' row) < 10"
  shows "csv_to_dictionary tbl =
           Inl (if length (header_fields tbl) < 10
                then IndexError ''fields'' (length (header_fields tbl))
                else (case namedtuple (row_key row)
                             (map replace_dot_comma_space (take 10 (header_fields tbl))) of
                        Some e \<Rightarrow> e
                      | None \<Rightarrow> IndexError ''elements'' (length (split_on CHR ''|'' row))))"
  using assms
  by (simp add: csv_to_dictionary_def transform_cwv_def row_error_def Let_def
           split: option.splits)

theorem first_short_row_fails_witness:
  "data_rows table_three = ''Cropland|0.971|0.968'' # [''Forest|0.995|0.996'']
   \<and> length (split_on CHR ''|'' ''Cropland|0.971|0.968'') < 10
   \<and> csv_to_dictionary table_three = Inl (IndexError ''elements'' 3)"
proof -
  have rows: "data_rows table_three = ''Cropland|0.971|0.968'' # [''Forest|0.995|0.996'']"
    by code_simp
  have len: "length (split_on CHR ''|'' ''Cropland|0.971|0.968'') < 10" by code_simp
  have hd: "length (header_fields table_three) = 10" by code_simp
  have nt: "namedtuple (row_key ''Cropland|0.971|0.968'')
              (map replace_dot_comma_space (take 10 (header_fields table_three))) = None"
    by code_simp
  have n: "length (split_on CHR ''|'' ''Cropland|0.971|0.968'') = 3" by code_simp
  from first_short_row_fails [OF rows len] hd nt n
  have "csv_to_dictionary table_three = Inl (IndexError ''elements'' 3)" by simp
  with rows len show ?thesis by blast
qed

section \<open>The numeric helper\<close>

text \<open>
  C2, as the specification states it: when neither the float parse nor the complex parse
  succeeds, the helper returns the original input string unchanged. The code returns
  \<^verbatim>\<open>False\<close>.
\<close>

theorem is_number_fallback_counterexample:
  "\<not> float_parses ''n/a'' \<and> \<not> complex_parses ''n/a''
   \<and> is_number ''n/a'' = PyBool False \<and> is_number ''n/a'' \<noteq> PyStr ''n/a''"
  by code_simp

text \<open>
  C2, amended: for every input string the helper returns a value (no exception leaves
  it): it tries the float parse and, when that fails, the complex parse; when one of
  them succeeds it returns the input string itself, not the number, and when both fail
  it returns \<^verbatim>\<open>False\<close>.
\<close>

theorem is_number_total:
  "(is_number v = PyStr v \<or> is_number v = PyBool False)
   \<and> (is_number v = PyStr v \<longleftrightarrow> float_parses v \<or> complex_parses v)
   \<and> (is_number v = PyBool False \<longleftrightarrow> \<not> float_parses v \<and> \<not> complex_parses v)"
  by (simp add: is_number_def)

section \<open>The split-window equation\<close>

text \<open>
  Two well-known roundings, as a check of the arithmetic: 0.1 + 0.2 is the double
  printed 0.30000000000000004 and not the double 0.3, and 1 / 3 is
  \<open>6004799503160661 / 2\<^sup>5\<^sup>4\<close>.
\<close>

lemma double_arithmetic_checks:
  "fadd (double_of_rat 0.1) (double_of_rat 0.2) = Finite False (1351079888211149 / 4503599627370496)
   \<and> double_of_rat 0.3 = Finite False (5404319552844595 / 18014398509481984)
   \<and> fdiv (double_of_rat 1) (double_of_rat 3) = Finite False (6004799503160661 / 18014398509481984)"
  by code_simp

text \<open>
  C8, as the specification states it: for the emissivity pair (0.971, 0.968) the model
  derives \<open>\<epsilon> = 0.9695\<close> and \<open>\<Delta>\<epsilon> = 0.003\<close>. In double precision the difference of
  the doubles 0.971 and 0.968 is \<open>27021597764223 / 2\<^sup>5\<^sup>3\<close> (printed
  0.0030000000000000027), and the double 0.003 is \<open>3458764513820541 / 2\<^sup>6\<^sup>0\<close>: the
  derived \<open>\<Delta>\<epsilon>\<close> is not 0.003.
\<close>

theorem delta_eps_counterexample:
  "delta_eps (SplitWindowModel \<lparr> eps_i = double_of_rat 0.971, eps_j = double_of_rat 0.968 \<rparr>
      \<lparr> c_b0 = double_of_rat 0.5, c_b1 = double_of_rat 1, c_b2 = dzero, c_b3 = dzero,
        c_b4 = dzero, c_b5 = dzero, c_b6 = dzero, c_b7 = dzero,
        c_rmse = double_of_rat 0.1 \<rparr>)
     = Finite False (27021597764223 / 9007199254740992)
   \<and> double_of_rat 0.003 = Finite False (3458764513820541 / 1152921504606846976)
   \<and> \<not> feq (delta_eps (SplitWindowModel \<lparr> eps_i = double_of_rat 0.971, eps_j = double_of_rat 0.968 \<rparr>
      \<lparr> c_b0 = double_of_rat 0.5, c_b1 = double_of_rat 1, c_b2 = dzero, c_b3 = dzero,
        c_b4 = dzero, c_b5 = dzero, c_b6 = dzero, c_b7 = dzero,
        c_rmse = double_of_rat 0.1 \<rparr>)) (double_of_rat 0.003)"
  by code_simp

text \<open>
  C8, amended: for the emissivity pair (0.971, 0.968) and the coefficients \<open>b0 = 0.5\<close>,
  \<open>b1 = 1\<close>, \<open>b2 = ... = b7 = 0\<close>, all of them the doubles that these literals
  denote, the model derives \<open>\<epsilon> = 0.9695\<close> exactly (the double of that literal), and
  \<open>compute\<close> at \<open>t_i = 300\<close>, \<open>t_j = 299\<close> returns \<open>LST = 300.0\<close> exactly; the derived
  \<open>\<Delta>\<epsilon>\<close> is the double \<open>27021597764223 / 2\<^sup>5\<^sup>3\<close>, which lies within \<open>3 \<cdot> 10\<^sup>-\<^sup>1\<^sup>8\<close> of
  0.003.
\<close>

theorem compute_end_to_end:
  "avg_eps (SplitWindowModel \<lparr> eps_i = double_of_rat 0.971, eps_j = double_of_rat 0.968 \<rparr>
      \<lparr> c_b0 = double_of_rat 0.5, c_b1 = double_of_rat 1, c_b2 = dzero, c_b3 = dzero,
        c_b4 = dzero, c_b5 = dzero, c_b6 = dzero, c_b7 = dzero, c_rmse = r \<rparr>)
     = double_of_rat 0.9695
   \<and> delta_eps (SplitWindowModel \<lparr> eps_i = double_of_rat 0.971, eps_j = double_of_rat 0.968 \<rparr>
      \<lparr> c_b0 = double_of_rat 0.5, c_b1 = double_of_rat 1, c_b2 = dzero, c_b3 = dzero,
        c_b4 = dzero, c_b5 = dzero, c_b6 = dzero, c_b7 = dzero, c_rmse = r \<rparr>)
     = Finite False (27021597764223 / 9007199254740992)
   \<and> \<bar>27021597764223 / 9007199254740992 - 0.003\<bar> < (3 / 10 ^ 18 :: rat)
   \<and> compute (SplitWindowModel \<lparr> eps_i = double_of_rat 0.971, eps_j = double_of_rat 0.968 \<rparr>
      \<lparr> c_b0 = double_of_rat 0.5, c_b1 = double_of_rat 1, c_b2 = dzero, c_b3 = dzero,
        c_b4 = dzero, c_b5 = dzero, c_b6 = dzero, c_b7 = dzero, c_rmse = r \<rparr>)
      (double_of_rat 300) (double_of_rat 299) = Inr (double_of_rat 300)
   \<and> double_of_rat 300 = Finite False 300"
proof -
  let ?e = "\<lparr> eps_i = double_of_rat 0.971, eps_j = double_of_rat 0.968 \<rparr>"
  let ?c = "\<lparr> c_b0 = double_of_rat 0.5, c_b1 = double_of_rat 1, c_b2 = dzero, c_b3 = dzero,
        c_b4 = dzero, c_b5 = dzero, c_b6 = dzero, c_b7 = dzero, c_rmse = r \<rparr>"
  let ?base = "\<lparr> c_b0 = double_of_rat 0.5, c_b1 = double_of_rat 1, c_b2 = dzero, c_b3 = dzero,
        c_b4 = dzero, c_b5 = dzero, c_b6 = dzero, c_b7 = dzero, c_rmse = NaN \<rparr>"
  have avg: "avg_eps (SplitWindowModel ?e ?base) = double_of_rat 0.9695"
    by code_simp
  have delta: "delta_eps (SplitWindowModel ?e ?base) = Finite False (27021597764223 / 9007199254740992)"
    by code_simp
  have near: "\<bar>27021597764223 / 9007199254740992 - 0.003\<bar> < (3 / 10 ^ 18 :: rat)"
    by simp
  have lst: "compute (SplitWindowModel ?e ?base) (double_of_rat 300) (double_of_rat 299)
      = Inr (double_of_rat 300)"
    by code_simp
  have three: "double_of_rat 300 = Finite False 300"
    by code_simp
  have "?base\<lparr> c_rmse := r \<rparr> = ?c"
    by simp
  then have c: "?c = ?base\<lparr> c_rmse := r \<rparr>"
    by (rule sym)
  have avg_indep: "avg_eps (SplitWindowModel e (k\<lparr> c_rmse := x \<rparr>)) = avg_eps (SplitWindowModel e k)"
    for e k x
    by (simp add: SplitWindowModel_def)
  have delta_indep: "delta_eps (SplitWindowModel e (k\<lparr> c_rmse := x \<rparr>)) = delta_eps (SplitWindowModel e k)"
    for e k x
    by (simp add: SplitWindowModel_def)
  have compute_indep: "compute (SplitWindowModel e (k\<lparr> c_rmse := x \<rparr>)) t_i t_j
      = compute (SplitWindowModel e k) t_i t_j"
    for e k x t_i t_j
    by (simp add: compute_def SplitWindowModel_def Let_def)
  show ?thesis
    unfolding c avg_indep delta_indep compute_indep
    using avg delta near lst three by blast
qed

text \<open>
  C9. For every emissivity pair with \<open>\<epsilon>\<^sub>i = 0\<close> or \<open>\<epsilon>\<^sub>j = 0\<close> whose average
  \<open>\<epsilon> = 0.5 (\<epsilon>\<^sub>i + \<epsilon>\<^sub>j)\<close> is 0, \<open>compute\<close> fails with \<open>DomainError\<close> and divides
  by nothing; the construction of the model is a total function, which yields a model
  for this pair too.
\<close>

theorem compute_zero_emissivity:
  assumes "feq (eps_i e) dzero \<or> feq (eps_j e) dzero"
    and "feq (fmul (double_of_rat 0.5) (fadd (eps_i e) (eps_j e))) dzero"
  shows "compute (SplitWindowModel e c) t_i t_j = Inl DomainError
         \<and> emis (SplitWindowModel e c) = e \<and> coef (SplitWindowModel e c) = c
         \<and> feq (avg_eps (SplitWindowModel e c)) dzero"
  using assms by (simp add: compute_def SplitWindowModel_def Let_def)

theorem compute_zero_emissivity_witness:
  "(feq (eps_i \<lparr> eps_i = dzero, eps_j = dzero \<rparr>) dzero
      \<or> feq (eps_j \<lparr> eps_i = dzero, eps_j = dzero \<rparr>) dzero)
   \<and> feq (fmul (double_of_rat 0.5)
        (fadd (eps_i \<lparr> eps_i = dzero, eps_j = dzero \<rparr>) (eps_j \<lparr> eps_i = dzero, eps_j = dzero \<rparr>)))
        dzero
   \<and> compute (SplitWindowModel \<lparr> eps_i = dzero, eps_j = dzero \<rparr>
        \<lparr> c_b0 = double_of_rat 0.5, c_b1 = double_of_rat 1, c_b2 = dzero, c_b3 = dzero,
          c_b4 = dzero, c_b5 = dzero, c_b6 = dzero, c_b7 = dzero,
          c_rmse = double_of_rat 0.1 \<rparr>) (double_of_rat 300) (double_of_rat 299)
       = Inl DomainError"
proof -
  have h1: "feq (eps_i \<lparr> eps_i = dzero, eps_j = dzero \<rparr>) dzero
      \<or> feq (eps_j \<lparr> eps_i = dzero, eps_j = dzero \<rparr>) dzero"
    by code_simp
  have h2: "feq (fmul (double_of_rat 0.5)
        (fadd (eps_i \<lparr> eps_i = dzero, eps_j = dzero \<rparr>) (eps_j \<lparr> eps_i = dzero, eps_j = dzero \<rparr>)))
        dzero"
    by code_simp
  from compute_zero_emissivity [OF h1 h2] h1 h2 show ?thesis by blast
qed

section \<open>Properties of the canonical key\<close>

lemma replace_scan_remove:
  "replace_scan [a] [] s = filter (\<lambda>c. c \<noteq> a) s"
  by (induction s) auto

lemma replace_scan_map:
  "replace_scan [a] [b] s = map (\<lambda>c. if c = a then b else c) s"
  by (induction s) auto

lemma later_steps_Cons:
  "later_steps (c # u) =
     (if c = CHR '','' \<or> c = CHR '' '' \<or> c = CHR ''/'' then CHR ''_'' # later_steps u
      else if c = CHR ''('' \<or> c = CHR '')'' then later_steps u
      else c # later_steps u)"
  by (simp add: later_steps_def)

lemma later_steps_Nil: "later_steps [] = []"
  by (simp add: later_steps_def)

lemma canonical_steps:
  "later_steps (replace_scan '', '' ''_'' t) = canonical t"
proof (induction t rule: canonical.induct)
  case 1
  show ?case by (simp add: later_steps_Nil)
next
  case (2 c cs)
  show ?case
  proof (cases "c = CHR '',''")
    case True
    show ?thesis
    proof (cases "prefix '' '' cs")
      case sp: True
      then obtain r where r: "cs = CHR '' '' # r" by (cases cs) auto
      with True 2 show ?thesis
        by (simp add: later_steps_Cons skip_space_def)
    next
      case nsp: False
      then have "skip_space cs = cs"
        by (cases cs) (auto simp: skip_space_def)
      with True nsp 2 show ?thesis
        by (cases cs) (simp_all add: later_steps_Cons)
    qed
  next
    case False
    with 2 show ?thesis
      by (simp add: later_steps_Cons)
  qed
qed

lemma replace_dot_comma_space_canonical:
  "replace_dot_comma_space s = canonical (filter (\<lambda>c. c \<noteq> CHR ''.'') s)"
proof -
  have "replace_dot_comma_space s =
      later_steps (replace_scan '', '' ''_'' (filter (\<lambda>c. c \<noteq> CHR ''.'') s))"
    by (simp add: replace_dot_comma_space_def replacements_def py_replace_def
          replace_scan_remove replace_scan_map later_steps_def)
  then show ?thesis by (simp add: canonical_steps)
qed

section \<open>Key canonicalization\<close>

text \<open>
  C5. Key canonicalization applies the fixed replacement sequence: periods are removed
  first, then \<^verbatim>\<open>", "\<close>, \<^verbatim>\<open>","\<close> and \<^verbatim>\<open>" "\<close> become an underscore,
  \<^verbatim>\<open>"("\<close> and \<^verbatim>\<open>")"\<close> are removed and \<^verbatim>\<open>"/"\<close> becomes an underscore, in that
  order; the raw key \<^verbatim>\<open>Barren Land\<close> becomes \<^verbatim>\<open>Barren_Land\<close> and
  \<^verbatim>\<open>Snow and ice\<close> becomes \<^verbatim>\<open>Snow_and_ice\<close>. For every key the result is the
  one-pass canonical form of the key without its periods; the further keys show each
  of the seven replacements at work, and that the periods go before a comma meets the
  space behind it.
\<close>

theorem replace_dot_comma_space_sequence:
  "replace_dot_comma_space s = canonical (filter (\<lambda>c. c \<noteq> CHR ''.'') s)
   \<and> replace_dot_comma_space s =
     py_replace (py_replace (py_replace (py_replace (py_replace (py_replace (py_replace s
       ''.'' '''') '', '' ''_'') '','' ''_'') '' '' ''_'') ''('' '''') '')'' '''') ''/'' ''_''
   \<and> replace_dot_comma_space ''Barren Land'' = ''Barren_Land''
   \<and> replace_dot_comma_space ''Snow and ice'' = ''Snow_and_ice''
   \<and> replace_dot_comma_space ''St. John (N/A), x'' = ''St_John_N_A_x''
   \<and> replace_dot_comma_space ''a.b'' = ''ab''
   \<and> replace_dot_comma_space ''a, b'' = ''a_b''
   \<and> replace_dot_comma_space ''a,b'' = ''a_b''
   \<and> replace_dot_comma_space ''a b'' = ''a_b''
   \<and> replace_dot_comma_space ''a(b'' = ''ab''
   \<and> replace_dot_comma_space ''a)b'' = ''ab''
   \<and> replace_dot_comma_space ''a/b'' = ''a_b''
   \<and> replace_dot_comma_space ''a,. b'' = ''a_b''
   \<and> replace_dot_comma_space ''a ,b'' = ''a__b''"
proof -
  have canon: "replace_dot_comma_space s = canonical (filter (\<lambda>c. c \<noteq> CHR ''.'') s)"
    by (rule replace_dot_comma_space_canonical)
  have seq: "replace_dot_comma_space s =
     py_replace (py_replace (py_replace (py_replace (py_replace (py_replace (py_replace s
       ''.'' '''') '', '' ''_'') '','' ''_'') '' '' ''_'') ''('' '''') '')'' '''') ''/'' ''_''"
    by (simp add: replace_dot_comma_space_def replacements_def)
  have barren: "replace_dot_comma_space ''Barren Land'' = ''Barren_Land''"
    by code_simp
  have snow: "replace_dot_comma_space ''Snow and ice'' = ''Snow_and_ice''"
    by code_simp
  have john: "replace_dot_comma_space ''St. John (N/A), x'' = ''St_John_N_A_x''"
    by code_simp
  have steps: "replace_dot_comma_space ''a.b'' = ''ab''
      \<and> replace_dot_comma_space ''a, b'' = ''a_b''
      \<and> replace_dot_comma_space ''a,b'' = ''a_b''
      \<and> replace_dot_comma_space ''a b'' = ''a_b''
      \<and> replace_dot_comma_space ''a(b'' = ''ab''
      \<and> replace_dot_comma_space ''a)b'' = ''ab''
      \<and> replace_dot_comma_space ''a/b'' = ''a_b''"
    by code_simp
  have order: "replace_dot_comma_space ''a,. b'' = ''a_b''
      \<and> replace_dot_comma_space ''a ,b'' = ''a__b''"
    by code_simp
  from canon seq barren snow john steps order show ?thesis by blast
qed

section \<open>Properties of repeated replacement\<close>

lemma replace_scan_skip:
  "old \<noteq> [] \<Longrightarrow> hd old \<notin> set p \<Longrightarrow> replace_scan old new (p @ t) = p @ replace_scan old new t"
proof (induction p)
  case Nil
  then show ?case by simp
next
  case (Cons c p)
  then have "\<not> prefix old (c # p @ t)"
    by (cases old) auto
  with Cons show ?case by simp
qed

lemma replace_scan_hit:
  "old \<noteq> [] \<Longrightarrow> replace_scan old new (old @ t) = new @ replace_scan old new t"
  by (cases old) auto

lemma prefix_replace_scan:
  "x \<noteq> [] \<Longrightarrow> hd x \<notin> set q \<Longrightarrow> prefix q (replace_scan old x s) \<Longrightarrow> prefix q s"
proof (induction q arbitrary: s)
  case Nil
  then show ?case by simp
next
  case (Cons a q)
  show ?case
  proof (cases s)
    case Nil
    with Cons.prems show ?thesis by simp
  next
    case (Cons c cs)
    show ?thesis
    proof (cases "prefix old (c # cs)")
      case True
      with Cons.prems Cons have "prefix (a # q) (x @ replace_scan old x (drop (length old - 1) cs))"
        by simp
      with Cons.prems(1) have "a = hd x" by (cases x) auto
      with Cons.prems(2) show ?thesis by simp
    next
      case False
      with Cons.prems Cons have "prefix (a # q) (c # replace_scan old x cs)" by simp
      then have "a = c" and "prefix q (replace_scan old x cs)" by auto
      with Cons.IH [of cs] Cons.prems Cons show ?thesis by simp
    qed
  qed
qed

lemma two_passes_single_pass:
  assumes A: "A \<noteq> []" and B: "B \<noteq> []"
    and x: "x \<noteq> []" and hx: "hd x \<notin> set (tl B)" and Bx: "hd B \<notin> set x"
    and AB: "hd A \<notin> set (tl B)"
  shows "replace_scan B y (replace_scan A x s) = spec_bind [(A, x), (B, y)] s"
proof (induction s rule: length_induct)
  case (1 s)
  show ?case
  proof (cases s)
    case Nil
    then show ?thesis by simp
  next
    case (Cons c cs)
    show ?thesis
    proof (cases "prefix A s")
      case True
      then obtain t where t: "s = A @ t" by (auto simp: prefix_def)
      with A Cons have dr: "drop (length A - 1) cs = t" by (cases A) auto
      from t A have "length t < length s" by simp
      with 1 have IH: "replace_scan B y (replace_scan A x t) = spec_bind [(A, x), (B, y)] t"
        by blast
      have "replace_scan B y (replace_scan A x s) = replace_scan B y (x @ replace_scan A x t)"
        using t A by (simp add: replace_scan_hit)
      also have "\<dots> = x @ replace_scan B y (replace_scan A x t)"
        using B Bx by (rule replace_scan_skip)
      also have "\<dots> = spec_bind [(A, x), (B, y)] s"
        using True Cons dr IH by simp
      finally show ?thesis .
    next
      case notA: False
      show ?thesis
      proof (cases "prefix B s")
        case True
        then obtain t where t: "s = B @ t" by (auto simp: prefix_def)
        with B Cons have dr: "drop (length B - 1) cs = t" by (cases B) auto
        from t B have "length t < length s" by simp
        with 1 have IH: "replace_scan B y (replace_scan A x t) = spec_bind [(A, x), (B, y)] t"
          by blast
        from B t Cons have s': "s = c # tl B @ t" and c: "c = hd B" by (cases B; simp)+
        have "replace_scan A x s = c # replace_scan A x (tl B @ t)"
          using notA Cons s' by simp
        also have "\<dots> = c # tl B @ replace_scan A x t"
          using A AB by (simp add: replace_scan_skip)
        also have "\<dots> = B @ replace_scan A x t"
          using B c by (cases B) auto
        finally have "replace_scan B y (replace_scan A x s) = y @ replace_scan B y (replace_scan A x t)"
          using B by (simp add: replace_scan_hit)
        also have "\<dots> = spec_bind [(A, x), (B, y)] s"
          using True notA Cons dr IH by simp
        finally show ?thesis .
      next
        case notB: False
        from Cons have "length cs < length s" by simp
        with 1 have IH: "replace_scan B y (replace_scan A x cs) = spec_bind [(A, x), (B, y)] cs"
          by blast
        have r: "replace_scan A x s = c # replace_scan A x cs"
          using notA Cons by simp
        have "\<not> prefix B (c # replace_scan A x cs)"
        proof
          assume p: "prefix B (c # replace_scan A x cs)"
          with B have "hd B = c" and "prefix (tl B) (replace_scan A x cs)"
            by (cases B; simp)+
          with prefix_replace_scan [OF x hx] have "prefix (tl B) cs" by blast
          with \<open>hd B = c\<close> B have "prefix B (c # cs)" by (cases B) auto
          with notB Cons show False by simp
        qed
        then have "replace_scan B y (replace_scan A x s) = c # replace_scan B y (replace_scan A x cs)"
          using r by simp
        also have "\<dots> = spec_bind [(A, x), (B, y)] s"
          using notA notB Cons IH by simp
        finally show ?thesis .
      qed
    qed
  qed
qed

lemma first_match_swap:
  "length A = length B \<Longrightarrow> A \<noteq> B \<Longrightarrow> spec_first_match [(A, x), (B, y)] s = spec_first_match [(B, y), (A, x)] s"
  by (auto simp: prefix_def append_eq_append_conv)

lemma bind_single_pass_swap:
  assumes "length A = length B" "A \<noteq> B"
  shows "spec_bind [(A, x), (B, y)] s = spec_bind [(B, y), (A, x)] s"
proof (induction s rule: length_induct)
  case (1 s)
  show ?case
  proof (cases s)
    case Nil
    then show ?thesis by simp
  next
    case (Cons c cs)
    have fm: "spec_first_match [(A, x), (B, y)] (c # cs) = spec_first_match [(B, y), (A, x)] (c # cs)"
      using assms by (rule first_match_swap)
    show ?thesis
    proof (cases "spec_first_match [(B, y), (A, x)] (c # cs)")
      case None
      with fm Cons 1 show ?thesis by simp
    next
      case (Some rep)
      have "length (drop (length (fst rep) - 1) cs) < length s" using Cons by simp
      with 1 have "spec_bind [(A, x), (B, y)] (drop (length (fst rep) - 1) cs)
          = spec_bind [(B, y), (A, x)] (drop (length (fst rep) - 1) cs)" by blast
      with fm Some Cons show ?thesis by simp
    qed
  qed
qed

lemma replace_dummies_passes:
  "replace_dummies s t10 t11 =
     replace_scan ''Input_T11'' (py_str t11) (replace_scan ''Input_T10'' (py_str t10) s)"
  by (simp add: replace_dummies_def reduce_replace_def py_replace_def)

section \<open>Binding the placeholders\<close>

text \<open>
  C3, as the specification states it: binding is a single pass that does not scan its
  own output, so the result does not depend on the order of the substitutions, and a
  token of one placeholder inside the replacement text of the other is not substituted
  again. The code runs the two replacements one after the other: bound to the text
  \<^verbatim>\<open>Input_T11\<close>, the expression \<^verbatim>\<open>Input_T10\<close> ends as the value of the second
  placeholder, where the single pass and the other order of the replacements both
  leave \<^verbatim>\<open>Input_T11\<close>.
\<close>

theorem replace_dummies_rescans_counterexample:
  "replace_dummies ''Input_T10'' (PyStr ''Input_T11'') (PyStr ''x'') = ''x''
   \<and> spec_bind [(''Input_T10'', ''Input_T11''), (''Input_T11'', ''x'')] ''Input_T10''
       = ''Input_T11''
   \<and> reduce_replace [(''Input_T11'', ''x''), (''Input_T10'', ''Input_T11'')] ''Input_T10''
       = ''Input_T11''"
  by code_simp

text \<open>
  C3, amended: binding is two replacement passes, \<^verbatim>\<open>Input_T10\<close> first and
  \<^verbatim>\<open>Input_T11\<close> over the result, so that the text put in for \<^verbatim>\<open>Input_T10\<close> is
  scanned again for \<^verbatim>\<open>Input_T11\<close>, while the text put in for \<^verbatim>\<open>Input_T11\<close> is
  not scanned again. The result does not depend on the order of the two replacements
  whenever neither replacement text is empty, neither contains the letter \<^verbatim>\<open>I\<close>,
  and neither begins with a character of the rest of the other token.
\<close>

theorem replace_dummies_order:
  "replace_dummies ''Input_T10'' t10 t11 = py_replace (py_str t10) ''Input_T11'' (py_str t11)
   \<and> replace_dummies ''Input_T11'' t10 t11 = py_str t11
   \<and> (py_str t10 \<noteq> [] \<and> py_str t11 \<noteq> []
        \<and> CHR ''I'' \<notin> set (py_str t10) \<and> CHR ''I'' \<notin> set (py_str t11)
        \<and> hd (py_str t10) \<notin> set ''nput_T11'' \<and> hd (py_str t11) \<notin> set ''nput_T10''
      \<longrightarrow> replace_dummies s t10 t11 =
            reduce_replace [(''Input_T11'', py_str t11), (''Input_T10'', py_str t10)] s)"
proof -
  let ?x = "py_str t10" and ?y = "py_str t11"
  have first: "replace_dummies ''Input_T10'' t10 t11 = py_replace ?x ''Input_T11'' ?y"
    using replace_scan_hit [of "''Input_T10''" ?x "[]"]
    by (simp add: replace_dummies_passes py_replace_def)
  have "replace_scan ''Input_T10'' ?x ''Input_T11'' = ''Input_T11''"
    by simp
  then have second: "replace_dummies ''Input_T11'' t10 t11 = ?y"
    using replace_scan_hit [of "''Input_T11''" ?y "[]"]
    by (simp add: replace_dummies_passes)
  have order: "replace_dummies s t10 t11 =
      reduce_replace [(''Input_T11'', ?y), (''Input_T10'', ?x)] s"
    if c: "?x \<noteq> []" "?y \<noteq> []" "CHR ''I'' \<notin> set ?x" "CHR ''I'' \<notin> set ?y"
      "hd ?x \<notin> set ''nput_T11''" "hd ?y \<notin> set ''nput_T10''"
  proof -
    have "replace_dummies s t10 t11 =
        spec_bind [(''Input_T10'', ?x), (''Input_T11'', ?y)] s"
      unfolding replace_dummies_passes
      using c by (intro two_passes_single_pass) simp_all
    also have "\<dots> = spec_bind [(''Input_T11'', ?y), (''Input_T10'', ?x)] s"
      by (rule bind_single_pass_swap) simp_all
    also have "\<dots> = replace_scan ''Input_T10'' ?x (replace_scan ''Input_T11'' ?y s)"
      using c by (intro two_passes_single_pass [symmetric]) simp_all
    finally show ?thesis
      by (simp add: reduce_replace_def py_replace_def)
  qed
  from first second order show ?thesis by blast
qed

theorem replace_dummies_order_witness:
  "py_str (PyStr ''B10'') \<noteq> [] \<and> py_str (PyInt 299) \<noteq> []
   \<and> CHR ''I'' \<notin> set (py_str (PyStr ''B10'')) \<and> CHR ''I'' \<notin> set (py_str (PyInt 299))
   \<and> hd (py_str (PyStr ''B10'')) \<notin> set ''nput_T11''
   \<and> hd (py_str (PyInt 299)) \<notin> set ''nput_T10''
   \<and> replace_dummies ''Input_T10 - Input_T11'' (PyStr ''B10'') (PyInt 299) = ''B10 - 299''
   \<and> reduce_replace [(''Input_T11'', ''299''), (''Input_T10'', ''B10'')] ''Input_T10 - Input_T11''
       = ''B10 - 299''"
proof -
  have c: "py_str (PyStr ''B10'') \<noteq> [] \<and> py_str (PyInt 299) \<noteq> []
      \<and> CHR ''I'' \<notin> set (py_str (PyStr ''B10'')) \<and> CHR ''I'' \<notin> set (py_str (PyInt 299))
      \<and> hd (py_str (PyStr ''B10'')) \<notin> set ''nput_T11''
      \<and> hd (py_str (PyInt 299)) \<notin> set ''nput_T10''"
    by code_simp
  have y: "py_str (PyInt 299) = ''299''" by code_simp
  have r: "reduce_replace [(''Input_T11'', ''299''), (''Input_T10'', ''B10'')] ''Input_T10 - Input_T11''
      = ''B10 - 299''"
    by code_simp
  from replace_dummies_order [of "PyStr ''B10''" "PyInt 299" "''Input_T10 - Input_T11''"] c
  have "replace_dummies ''Input_T10 - Input_T11'' (PyStr ''B10'') (PyInt 299) =
      reduce_replace [(''Input_T11'', py_str (PyInt 299)), (''Input_T10'', py_str (PyStr ''B10''))]
        ''Input_T10 - Input_T11''"
    by blast
  with y r have "replace_dummies ''Input_T10 - Input_T11'' (PyStr ''B10'') (PyInt 299) = ''B10 - 299''"
    by simp
  with c r show ?thesis by blast
qed

text \<open>
  C4, as the specification states it: every occurrence of every placeholder token is
  replaced by its bound value, every other substring is left as it is, and binding
  fails with \<open>MissingPlaceholderError\<close> when the expression refers to a placeholder that
  has no value. In the code, with the values 1 and 9, the characters \<^verbatim>\<open>Input_T1\<close>
  in front of a token \<^verbatim>\<open>Input_T10\<close> join the 1 put in for it and are replaced as a
  token \<^verbatim>\<open>Input_T11\<close>; and there is no failure: the function has two parameters for
  the two values, and a value that is \<^verbatim>\<open>None\<close> is put in as the text \<^verbatim>\<open>None\<close>.
\<close>

theorem replace_dummies_binding_counterexample:
  "replace_dummies ''Input_T1Input_T100'' (PyInt 1) (PyInt 9) = ''90''
   \<and> spec_bind [(''Input_T10'', ''1''), (''Input_T11'', ''9'')] ''Input_T1Input_T100''
       = ''Input_T110''
   \<and> replace_dummies ''Input_T10 - Input_T11'' (PyStr ''B10'') PyNone = ''B10 - None''"
  by code_simp

text \<open>
  C4, amended: for every expression and every two values binding returns a text; there
  is no failure for a placeholder without a value. Whenever the text of the value for
  \<^verbatim>\<open>Input_T10\<close> is not empty, does not contain the letter \<^verbatim>\<open>I\<close> and does not begin
  with one of the characters \<^verbatim>\<open>n p u t _ T 1\<close>, the result is that of the single
  pass: every occurrence of \<^verbatim>\<open>Input_T10\<close> and of \<^verbatim>\<open>Input_T11\<close> in the expression
  is replaced by the text of its value and every other character is kept.
\<close>

theorem replace_dummies_single_pass:
  assumes "py_str t10 \<noteq> []"
    and "CHR ''I'' \<notin> set (py_str t10)"
    and "hd (py_str t10) \<notin> set ''nput_T11''"
  shows "replace_dummies s t10 t11 =
           spec_bind [(''Input_T10'', py_str t10), (''Input_T11'', py_str t11)] s"
  unfolding replace_dummies_passes
  using assms by (intro two_passes_single_pass) simp_all

theorem replace_dummies_single_pass_witness:
  "py_str (PyStr ''B10'') \<noteq> []
   \<and> CHR ''I'' \<notin> set (py_str (PyStr ''B10''))
   \<and> hd (py_str (PyStr ''B10'')) \<notin> set ''nput_T11''
   \<and> replace_dummies ''(Input_T10 + Input_T11) / 2 + Input_T10'' (PyStr ''B10'') (PyStr ''B11'')
       = ''(B10 + B11) / 2 + B10''"
proof -
  have c1: "py_str (PyStr ''B10'') \<noteq> []" by simp
  have c2: "CHR ''I'' \<notin> set (py_str (PyStr ''B10''))" by simp
  have c3: "hd (py_str (PyStr ''B10'')) \<notin> set ''nput_T11''" by simp
  have b: "spec_bind [(''Input_T10'', py_str (PyStr ''B10'')), (''Input_T11'', py_str (PyStr ''B11''))]
      ''(Input_T10 + Input_T11) / 2 + Input_T10'' = ''(B10 + B11) / 2 + B10''"
    by code_simp
  from replace_dummies_single_pass [OF c1 c2 c3, of "''(Input_T10 + Input_T11) / 2 + Input_T10''" "PyStr ''B11''"] b
  have "replace_dummies ''(Input_T10 + Input_T11) / 2 + Input_T10'' (PyStr ''B10'') (PyStr ''B11'')
      = ''(B10 + B11) / 2 + B10''"
    by simp
  with c1 c2 c3 show ?thesis by blast
qed

end
